theory Spec2Isabelle
  imports Main
begin

section \<open>Data model of the debug view (src/views/debugView.ts)\<close>

text \<open>
  The TypeScript type \<open>Certificates\<close> has one mandatory flag and two optional strings.
  An optional string is a \<open>string option\<close>: \<open>None\<close> is \<open>undefined\<close>, \<open>Some s\<close> is a
  string that was assigned, the empty string included.
\<close>

record Certificates =
  secureDebug :: bool
  remoteCertificate :: "string option"
  localCertificate :: "string option"

record CertificateIssue =
  label :: string
  detail :: "string option"
  issueContext :: string

text \<open>
  \<open>DebugJob\<close> is declared in api/debug/server; the view reads its \<open>name\<close> and its
  \<open>ports\<close> only.
\<close>

record DebugJob =
  name :: string
  ports :: "int list"

datatype JobType = server | service

datatype TreeItemCollapsibleState = CollapsedNone | Collapsed | Expanded

text \<open>A tooltip is a plain string or a \<open>vscode.MarkdownString\<close>.\<close>

datatype Tooltip = PlainString string | MarkdownString string

text \<open>
  The connection object: the view reads \<open>connection.config?.debugIsSecure\<close> and hands the
  connection to the certificate helpers.
\<close>

record Config =
  debugIsSecure :: bool

record Connection =
  connectionName :: string
  config :: "Config option"

datatype Content = IBMiContent

datatype DB2Value = Str string | Num int

type_synonym DB2Row = "(string \<times> DB2Value option) list"

datatype ActiveJob = JobString string | JobRow DB2Row

text \<open>
  \<open>BrowserItem\<close> (typings) extends \<open>vscode.TreeItem\<close>: the fields the view sets through
  \<open>super(label, {state, icon, color})\<close> and by assignment. \<open>DebugItem\<close> adds no field.
\<close>

record BrowserItem =
  label :: string
  state :: TreeItemCollapsibleState
  icon :: "string option"
  color :: "string option"
  description :: "string option"
  tooltip :: "Tooltip option"
  contextValue :: "string option"

text \<open>
  The state the view reads and the collaborators change: the connection and content of
  \<open>instance\<close>, the certificate files, the job table, and the events fired on the tree's
  emitter (\<open>None\<close> for the whole tree, \<open>Some item\<close> for one node).
\<close>

record world =
  getConnection :: "Connection option"
  getContent :: "Content option"
  remoteServerCertificateExists :: "Connection \<Rightarrow> bool"
  readRemoteCertificate :: "Connection \<Rightarrow> string"
  localClientCertExists :: "Connection \<Rightarrow> bool"
  readLocalCertificate :: "Connection \<Rightarrow> string"
  getDebugServerJob :: "DebugJob option"
  getDebugServiceJob :: "DebugJob option"
  readActiveJob :: "Content \<Rightarrow> DebugJob \<Rightarrow> ActiveJob option"
  readJVMInfo :: "Content \<Rightarrow> DebugJob \<Rightarrow> DB2Row option"
  fired :: "BrowserItem option list"

text \<open>
  The pure collaborators imported by the view: the localisation function \<open>t\<close> (a key and
  its arguments), the remote certificate directory, and the four lifecycle functions of
  api/debug/server, each returning its success flag and the changed world.
\<close>

record api =
  t :: "string \<Rightarrow> string list \<Rightarrow> string"
  getRemoteCertificateDirectory :: "Connection option \<Rightarrow> string"
  startServer :: "world \<Rightarrow> bool \<times> world"
  stopServer :: "world \<Rightarrow> bool \<times> world"
  startService :: "Connection \<Rightarrow> world \<Rightarrow> bool \<times> world"
  stopService :: "Connection \<Rightarrow> world \<Rightarrow> bool \<times> world"

record DebugJobItem = BrowserItem +
  type :: JobType
  startFunction :: "world \<Rightarrow> bool \<times> world"
  stopFunction :: "world \<Rightarrow> bool \<times> world"
  debugJob :: "DebugJob option"
  problem :: "CertificateIssue option"

section \<open>The constructor of DebugJobItem\<close>

text \<open>
  JavaScript truthiness of an optional string: \<open>undefined\<close> and the empty string are
  falsy, every other string is truthy.
\<close>

definition truthy :: "string option \<Rightarrow> bool" where
  "truthy v = (case v of None \<Rightarrow> False | Some s \<Rightarrow> s \<noteq> [])"

text \<open>\<open>const cantRun = certificates && !certificates.remoteCertificate\<close>, read as a condition.\<close>

definition cantRun :: "Certificates option \<Rightarrow> bool" where
  "cantRun certificates =
     (case certificates of None \<Rightarrow> False | Some c \<Rightarrow> \<not> truthy (remoteCertificate c))"

text \<open>\<open>const running = !cantRun && debugJob !== undefined\<close>\<close>

definition running :: "Certificates option \<Rightarrow> DebugJob option \<Rightarrow> bool" where
  "running certificates job = (\<not> cantRun certificates \<and> job \<noteq> None)"

text \<open>The \<open>if (certificates) ...\<close> chain that assigns \<open>problem\<close>.\<close>

definition certificateProblem ::
  "api \<Rightarrow> world \<Rightarrow> Certificates option \<Rightarrow> CertificateIssue option" where
  "certificateProblem a w certificates =
     (case certificates of
        None \<Rightarrow> None
      | Some c \<Rightarrow>
          if \<not> truthy (remoteCertificate c) then
            Some \<lparr> CertificateIssue.label = t a ''remote.certificate.not.found'' [],
                   detail = Some (t a ''remote.certificate.not.found.detail''
                             [''debug_service.pfx'',
                              getRemoteCertificateDirectory a (getConnection w)]),
                   issueContext = ''noremote'' \<rparr>
          else if secureDebug c then
            (if \<not> truthy (localCertificate c) then
               Some \<lparr> CertificateIssue.label = t a ''local.certificate.not.found'' [],
                      detail = None, issueContext = ''nolocal'' \<rparr>
             else if remoteCertificate c \<noteq> localCertificate c then
               Some \<lparr> CertificateIssue.label = t a ''local.dont.match.remote'' [],
                      detail = None, issueContext = ''dontmatch'' \<rparr>
             else None)
          else None)"

fun typeName :: "JobType \<Rightarrow> string" where
  "typeName server = ''server''"
| "typeName service = ''service''"

definition newDebugJobItem ::
  "api \<Rightarrow> world \<Rightarrow> JobType \<Rightarrow> string \<Rightarrow> (world \<Rightarrow> bool \<times> world) \<Rightarrow> (world \<Rightarrow> bool \<times> world)
     \<Rightarrow> DebugJob option \<Rightarrow> Certificates option \<Rightarrow> DebugJobItem" where
  "newDebugJobItem a w ty lbl startFn stopFn job certificates =
     (let prob = certificateProblem a w certificates;
          cant = cantRun certificates;
          run = running certificates job
      in \<lparr> BrowserItem.label = lbl,
           state = (if prob \<noteq> None then Expanded else CollapsedNone),
           icon = Some (if prob \<noteq> None then ''warning'' else if run then ''pass'' else ''error''),
           color = Some (if prob \<noteq> None
                         then (if cant then ''testing.iconFailed'' else ''testing.iconQueued'')
                         else (if run then ''testing.iconPassed'' else ''testing.iconFailed'')),
           description = (if run then map_option name job else Some (t a ''offline'' [])),
           tooltip = (if run then None else Some (PlainString [])),
           contextValue = Some (''debugJob_'' @ typeName ty @
                            (if cant then [] else ''_'' @ (if run then ''on'' else ''off''))),
           type = ty,
           startFunction = startFn,
           stopFunction = stopFn,
           debugJob = job,
           problem = prob \<rparr>)"

text \<open>
  \<open>getChildren\<close> of a job item: the issue as a child node, or \<open>undefined\<close>. The issue node
  is built by the constructor of \<open>CertificateIssueItem\<close> (\<open>issue.detail || ''\<close> for the
  tooltip).
\<close>

definition newCertificateIssueItem :: "CertificateIssue \<Rightarrow> BrowserItem" where
  "newCertificateIssueItem issue =
     \<lparr> BrowserItem.label = CertificateIssue.label issue,
       state = CollapsedNone,
       icon = None,
       color = None,
       description = detail issue,
       tooltip = Some (PlainString (case detail issue of None \<Rightarrow> [] | Some d \<Rightarrow> d)),
       contextValue = Some (''certificateIssue_'' @ issueContext issue) \<rparr>"

definition getChildren :: "DebugJobItem \<Rightarrow> BrowserItem list option" where
  "getChildren item =
     (case problem item of None \<Rightarrow> None | Some p \<Rightarrow> Some [newCertificateIssueItem p])"

text \<open>
  The specification names the certificate state of a node its trust outcome. The code
  carries it as the issue attached to the node: no issue, or an issue whose context is
  \<open>noremote\<close>, \<open>nolocal\<close> or \<open>dontmatch\<close>. A node is blocked when it carries an issue.
\<close>

datatype TrustOutcome = Ok | NoRemoteCertificate | NoLocalCertificate | CertificateMismatch

definition trustOutcome :: "CertificateIssue option \<Rightarrow> TrustOutcome option" where
  "trustOutcome p =
     (case p of
        None \<Rightarrow> Some Ok
      | Some i \<Rightarrow>
          if issueContext i = ''noremote'' then Some NoRemoteCertificate
          else if issueContext i = ''nolocal'' then Some NoLocalCertificate
          else if issueContext i = ''dontmatch'' then Some CertificateMismatch
          else None)"

definition blocked :: "DebugJobItem \<Rightarrow> bool" where
  "blocked item = (problem item \<noteq> None)"

section \<open>Refresh: DebugBrowser.getRootItems\<close>

text \<open>
  Each read of a collaborator made by a refresh is recorded with its result, in the order
  of the calls, beside the nodes the refresh returns.
\<close>

datatype Observation =
    ObsConnection "Connection option"
  | ObsRemoteExists bool
  | ObsRemoteCertificate string
  | ObsLocalExists bool
  | ObsLocalCertificate string
  | ObsServerJob "DebugJob option"
  | ObsServiceJob "DebugJob option"

definition rootCertificates :: "world \<Rightarrow> Connection \<Rightarrow> Certificates \<times> Observation list" where
  "rootCertificates w c =
     (let secure = (case config c of None \<Rightarrow> False | Some cfg \<Rightarrow> debugIsSecure cfg)
      in if remoteServerCertificateExists w c then
           (let remote = readRemoteCertificate w c
            in if secure then
                 (if localClientCertExists w c then
                    (\<lparr> secureDebug = secure, remoteCertificate = Some remote,
                        localCertificate = Some (readLocalCertificate w c) \<rparr>,
                     [ObsRemoteExists True, ObsRemoteCertificate remote, ObsLocalExists True,
                      ObsLocalCertificate (readLocalCertificate w c)])
                  else
                    (\<lparr> secureDebug = secure, remoteCertificate = Some remote,
                        localCertificate = None \<rparr>,
                     [ObsRemoteExists True, ObsRemoteCertificate remote, ObsLocalExists False]))
               else
                 (\<lparr> secureDebug = secure, remoteCertificate = Some remote,
                     localCertificate = None \<rparr>,
                  [ObsRemoteExists True, ObsRemoteCertificate remote]))
         else
           (\<lparr> secureDebug = secure, remoteCertificate = None, localCertificate = None \<rparr>,
            [ObsRemoteExists False]))"

definition getRootItems :: "api \<Rightarrow> world \<Rightarrow> DebugJobItem list \<times> Observation list" where
  "getRootItems a w =
     (case getConnection w of
        None \<Rightarrow> ([], [ObsConnection None])
      | Some c \<Rightarrow>
          (let (certificates, obs) = rootCertificates w c;
               serverJob = getDebugServerJob w;
               serviceJob = getDebugServiceJob w
           in ([newDebugJobItem a w server (t a ''debug.server'' [])
                  (startServer a) (stopServer a) serverJob None,
                newDebugJobItem a w service (t a ''debug.service'' [])
                  (startService a c) (stopService a c) serviceJob (Some certificates)],
               ObsConnection (Some c) # obs @ [ObsServerJob serverJob, ObsServiceJob serviceJob])))"

text \<open>\<open>DebugBrowser.refresh\<close> fires the emitter; \<open>DebugItem.refresh\<close> runs the command that calls it.\<close>

definition refresh :: "BrowserItem option \<Rightarrow> world \<Rightarrow> world" where
  "refresh item w = w\<lparr> fired := fired w @ [item] \<rparr>"

definition itemRefresh :: "BrowserItem \<Rightarrow> world \<Rightarrow> world" where
  "itemRefresh item w = refresh (Some item) w"

section \<open>Detail: DebugBrowser.resolveTreeItem\<close>

fun stringOfNat :: "nat \<Rightarrow> string" where
  "stringOfNat n =
     (if n < 10 then [''0123456789'' ! n]
      else stringOfNat (n div 10) @ [''0123456789'' ! (n mod 10)])"

declare stringOfNat.simps [simp del]

definition numberToString :: "int \<Rightarrow> string" where
  "numberToString i = (if i < 0 then ''-'' @ stringOfNat (nat (- i)) else stringOfNat (nat i))"

fun join :: "string \<Rightarrow> string list \<Rightarrow> string" where
  "join sep [] = []"
| "join sep [x] = x"
| "join sep (x # y # ys) = x @ sep @ join sep (y # ys)"

fun valueToString :: "DB2Value \<Rightarrow> string" where
  "valueToString (Str s) = s"
| "valueToString (Num i) = numberToString i"

text \<open>The entries of a row whose value is not null, each as \<open>- key: value\<close>.\<close>

fun rowLines :: "api \<Rightarrow> DB2Row \<Rightarrow> string list" where
  "rowLines a [] = []"
| "rowLines a ((k, None) # row) = rowLines a row"
| "rowLines a ((k, Some v) # row) = (''- '' @ t a k [] @ '': '' @ valueToString v) # rowLines a row"

fun jobToMarkDown :: "api \<Rightarrow> ActiveJob \<Rightarrow> string" where
  "jobToMarkDown a (JobString s) = s"
| "jobToMarkDown a (JobRow row) = join ''\<newline>'' (rowLines a row)"

text \<open>\<open>if (activeJob)\<close>: \<open>undefined\<close> and the empty string are falsy, a row object is truthy.\<close>

fun activeJobTruthy :: "ActiveJob option \<Rightarrow> bool" where
  "activeJobTruthy None = False"
| "activeJobTruthy (Some (JobString s)) = (s \<noteq> [])"
| "activeJobTruthy (Some (JobRow row)) = True"

datatype TreeElement = JobElement DebugJobItem | ItemElement BrowserItem

datatype Query = ActiveJobQuery DebugJob "ActiveJob option" | JVMQuery DebugJob "DB2Row option"

definition baseTooltip :: "api \<Rightarrow> DebugJob \<Rightarrow> string" where
  "baseTooltip a j =
     t a (''listening.on.port'' @ (if length (ports j) = 1 then [] else ''s'')) [] @ '' '' @
     join '', '' (map numberToString (ports j)) @ ''\<newline>\<newline>''"

text \<open>
  The result is the element handed back to the tree (\<open>None\<close> for \<open>undefined\<close>) and the
  enrichment queries made, each with what it returned.
\<close>

definition resolveTreeItem :: "api \<Rightarrow> world \<Rightarrow> TreeElement \<Rightarrow> TreeElement option \<times> Query list" where
  "resolveTreeItem a w element =
     (case getContent w of
        None \<Rightarrow> (None, [])
      | Some content \<Rightarrow>
          (case element of
             ItemElement _ \<Rightarrow> (None, [])
           | JobElement e \<Rightarrow>
               if tooltip e \<noteq> None then (None, [])
               else
                 (case debugJob e of
                    None \<Rightarrow> (None, [])
                  | Some j \<Rightarrow>
                      (let tip0 = baseTooltip a j;
                           activeJob = readActiveJob w content j
                       in case (if activeJobTruthy activeJob then activeJob else None) of
                            None \<Rightarrow>
                              (Some (JobElement (e\<lparr> tooltip := Some (MarkdownString tip0) \<rparr>)),
                               [ActiveJobQuery j activeJob])
                          | Some job \<Rightarrow>
                              (let tip1 = tip0 @ jobToMarkDown a job
                               in if type e = service then
                                    (let tip2 = tip1 @ ''\<newline>\<newline>'';
                                         jvmJob = readJVMInfo w content j;
                                         tip3 = (case jvmJob of
                                                   None \<Rightarrow> tip2
                                                 | Some row \<Rightarrow> tip2 @ jobToMarkDown a (JobRow row))
                                     in (Some (JobElement (e\<lparr> tooltip := Some (MarkdownString tip3) \<rparr>)),
                                         [ActiveJobQuery j activeJob, JVMQuery j jvmJob]))
                                  else
                                    (Some (JobElement (e\<lparr> tooltip := Some (MarkdownString tip1) \<rparr>)),
                                     [ActiveJobQuery j activeJob]))))))"

section \<open>Lifecycle commands\<close>

text \<open>
  \<open>vscode.window.withProgress\<close> shows the title while the task runs and returns the task's
  result. The commands run on the world together with the list of the calls of
  \<open>start()\<close> and \<open>stop()\<close> made so far.
\<close>

datatype Call = Start JobType | Stop JobType

definition withProgress :: "string \<Rightarrow> (world \<Rightarrow> bool \<times> world) \<Rightarrow> world \<Rightarrow> bool \<times> world" where
  "withProgress title task w = task w"

definition start :: "api \<Rightarrow> DebugJobItem \<Rightarrow> Call list \<times> world \<Rightarrow> bool \<times> Call list \<times> world" where
  "start a item s =
     (let (ok, w') = withProgress (t a (''start.debug.'' @ typeName (type item) @ ''.task'') [])
                       (startFunction item) (snd s)
      in (ok, fst s @ [Start (type item)], w'))"

definition stop :: "api \<Rightarrow> DebugJobItem \<Rightarrow> Call list \<times> world \<Rightarrow> bool \<times> Call list \<times> world" where
  "stop a item s =
     (let (ok, w') = withProgress (t a (''stop.debug.'' @ typeName (type item) @ ''.task'') [])
                       (stopFunction item) (snd s)
      in (ok, fst s @ [Stop (type item)], w'))"

text \<open>The restart command: \<open>await item.start() && item.stop()\<close>.\<close>

definition restart :: "api \<Rightarrow> DebugJobItem \<Rightarrow> Call list \<times> world \<Rightarrow> bool \<times> Call list \<times> world" where
  "restart a item s =
     (let (ok, s') = start a item s
      in if ok then stop a item s' else (False, s'))"

section \<open>Sample collaborators\<close>

text \<open>
  A localisation that returns its key, lifecycle functions that change the job table, and
  a connected world with matching certificates and both jobs active.
\<close>

definition exampleApi :: api where
  "exampleApi =
     \<lparr> t = (\<lambda>key args. key),
       getRemoteCertificateDirectory = (\<lambda>c. ''/certs''),
       startServer = (\<lambda>w. (True, w\<lparr> getDebugServerJob := Some \<lparr> name = ''QDBGSRV'', ports = [3825] \<rparr> \<rparr>)),
       stopServer = (\<lambda>w. (True, w\<lparr> getDebugServerJob := None \<rparr>)),
       startService = (\<lambda>c w. (False, w)),
       stopService = (\<lambda>c w. (True, w\<lparr> getDebugServiceJob := None \<rparr>)) \<rparr>"

definition exampleConnection :: Connection where
  "exampleConnection = \<lparr> connectionName = ''dev'', config = Some \<lparr> debugIsSecure = True \<rparr> \<rparr>"

definition exampleWorld :: world where
  "exampleWorld =
     \<lparr> getConnection = Some exampleConnection,
       getContent = Some IBMiContent,
       remoteServerCertificateExists = (\<lambda>c. True),
       readRemoteCertificate = (\<lambda>c. ''CERT-A''),
       localClientCertExists = (\<lambda>c. True),
       readLocalCertificate = (\<lambda>c. ''CERT-A''),
       getDebugServerJob = Some \<lparr> name = ''QDBGSRV'', ports = [3825] \<rparr>,
       getDebugServiceJob = Some \<lparr> name = ''QB5ROUTER'', ports = [8005, 8008] \<rparr>,
       readActiveJob = (\<lambda>c j. None),
       readJVMInfo = (\<lambda>c j. None),
       fired = [] \<rparr>"

definition exampleState :: "Call list \<times> world" where
  "exampleState = ([], exampleWorld)"

text \<open>The service node of a refresh of that world, and its server node.\<close>

definition exampleServiceItem :: DebugJobItem where
  "exampleServiceItem =
     newDebugJobItem exampleApi exampleWorld service ''debug.service''
       (startService exampleApi exampleConnection) (stopService exampleApi exampleConnection)
       (getDebugServiceJob exampleWorld)
       (Some \<lparr> secureDebug = True, remoteCertificate = Some ''CERT-A'',
               localCertificate = Some ''CERT-A'' \<rparr>)"

definition exampleServerItem :: DebugJobItem where
  "exampleServerItem =
     newDebugJobItem exampleApi exampleWorld server ''debug.server''
       (startServer exampleApi) (stopServer exampleApi) (getDebugServerJob exampleWorld) None"

text \<open>
  A world whose connection does not ask for secure debugging, and one that differs from
  it in what a refresh does not read: the local certificate, the content and the events
  fired so far.
\<close>

definition insecureWorld :: world where
  "insecureWorld =
     exampleWorld\<lparr> getConnection := Some \<lparr> connectionName = ''dev'', config = None \<rparr> \<rparr>"

definition insecureWorld' :: world where
  "insecureWorld' =
     insecureWorld\<lparr> localClientCertExists := (\<lambda>c. False),
                    readLocalCertificate := (\<lambda>c. ''CERT-B''),
                    getContent := None,
                    fired := [None] \<rparr>"

text \<open>A secure world whose local certificate differs from the remote one.\<close>

definition mismatchWorld :: world where
  "mismatchWorld = exampleWorld\<lparr> readLocalCertificate := (\<lambda>c. ''CERT-B'') \<rparr>"

text \<open>A world whose remote certificate file exists and reads as the empty string.\<close>

definition emptyRemoteWorld :: world where
  "emptyRemoteWorld = exampleWorld\<lparr> readRemoteCertificate := (\<lambda>c. []) \<rparr>"

text \<open>A world without a remote certificate file.\<close>

definition noRemoteWorld :: world where
  "noRemoteWorld = exampleWorld\<lparr> remoteServerCertificateExists := (\<lambda>c. False) \<rparr>"

section \<open>Helper facts\<close>

lemma truthy_simps [simp]: "truthy None = False" "truthy (Some s) = (s \<noteq> [])"
  by (simp_all add: truthy_def)

lemma newDebugJobItem_fields [simp]:
  "type (newDebugJobItem a w ty lbl startFn stopFn job cs) = ty"
  "startFunction (newDebugJobItem a w ty lbl startFn stopFn job cs) = startFn"
  "stopFunction (newDebugJobItem a w ty lbl startFn stopFn job cs) = stopFn"
  "debugJob (newDebugJobItem a w ty lbl startFn stopFn job cs) = job"
  "problem (newDebugJobItem a w ty lbl startFn stopFn job cs) = certificateProblem a w cs"
  "label (newDebugJobItem a w ty lbl startFn stopFn job cs) = lbl"
  by (simp_all add: newDebugJobItem_def Let_def)

lemma certificateProblem_contexts:
  "certificateProblem a w cs = Some p \<Longrightarrow>
     issueContext p = ''noremote'' \<or> issueContext p = ''nolocal'' \<or> issueContext p = ''dontmatch''"
  by (auto simp: certificateProblem_def split: option.splits if_splits)

lemma trustOutcome_noremote_iff:
  "trustOutcome (certificateProblem a w (Some c)) = Some NoRemoteCertificate \<longleftrightarrow>
     \<not> truthy (remoteCertificate c)"
  by (simp add: certificateProblem_def trustOutcome_def)

lemma trustOutcome_ok_iff:
  "trustOutcome (certificateProblem a w cs) = Some Ok \<longleftrightarrow> certificateProblem a w cs = None"
  by (auto simp: certificateProblem_def trustOutcome_def split: option.splits)

lemma certificateProblem_world:
  "getConnection w1 = getConnection w2 \<Longrightarrow>
     certificateProblem a w1 cs = certificateProblem a w2 cs"
  by (cases cs) (simp_all add: certificateProblem_def)

lemma newDebugJobItem_world:
  "getConnection w1 = getConnection w2 \<Longrightarrow>
     newDebugJobItem a w1 ty lbl startFn stopFn job cs =
     newDebugJobItem a w2 ty lbl startFn stopFn job cs"
  using certificateProblem_world [of w1 w2 a cs] by (simp add: newDebugJobItem_def)

lemma newDebugJobItem_no_certificates:
  "newDebugJobItem a w1 ty lbl startFn stopFn job None =
   newDebugJobItem a w2 ty lbl startFn stopFn job None"
  by (simp add: newDebugJobItem_def certificateProblem_def)

lemma newDebugJobItem_falsy_remote:
  "\<not> truthy (remoteCertificate c1) \<Longrightarrow> \<not> truthy (remoteCertificate c2) \<Longrightarrow>
     newDebugJobItem a w ty lbl startFn stopFn job (Some c1) =
     newDebugJobItem a w ty lbl startFn stopFn job (Some c2)"
  by (simp add: newDebugJobItem_def certificateProblem_def cantRun_def running_def)

lemma getRootItems_disconnected:
  "getConnection w = None \<Longrightarrow> getRootItems a w = ([], [ObsConnection None])"
  by (simp add: getRootItems_def)

lemma getRootItems_connected:
  "getConnection w = Some c \<Longrightarrow>
     getRootItems a w =
       ([newDebugJobItem a w server (t a ''debug.server'' [])
           (startServer a) (stopServer a) (getDebugServerJob w) None,
         newDebugJobItem a w service (t a ''debug.service'' [])
           (startService a c) (stopService a c) (getDebugServiceJob w)
           (Some (fst (rootCertificates w c)))],
        ObsConnection (Some c) # snd (rootCertificates w c) @
          [ObsServerJob (getDebugServerJob w), ObsServiceJob (getDebugServiceJob w)])"
  by (simp add: getRootItems_def split_beta Let_def)

lemma rootCertificates_determined:
  "snd (rootCertificates w1 c) = snd (rootCertificates w2 c) \<Longrightarrow>
     fst (rootCertificates w1 c) = fst (rootCertificates w2 c)"
  by (simp add: rootCertificates_def Let_def split: if_splits)

lemma rootCertificates_local:
  "localCertificate (fst (rootCertificates w c)) \<noteq> None \<Longrightarrow>
     remoteCertificate (fst (rootCertificates w c)) \<noteq> None \<and>
     secureDebug (fst (rootCertificates w c))"
  by (simp add: rootCertificates_def Let_def split: if_splits)

lemma rootCertificates_local_read:
  "ObsLocalCertificate s \<in> set (snd (rootCertificates w c)) \<Longrightarrow>
     secureDebug (fst (rootCertificates w c)) \<and>
     remoteCertificate (fst (rootCertificates w c)) \<noteq> None \<and>
     localCertificate (fst (rootCertificates w c)) = Some s"
  by (simp add: rootCertificates_def Let_def split: if_splits)

lemma local_outcomes_need_secure_remote:
  "trustOutcome (certificateProblem a w (Some cs))
      \<in> {Some NoLocalCertificate, Some CertificateMismatch} \<Longrightarrow>
     secureDebug cs \<and> remoteCertificate cs \<noteq> None"
  by (cases "remoteCertificate cs")
     (simp_all add: certificateProblem_def trustOutcome_def split: if_splits)

lemma append_two_eq:
  "xs @ [a, b] = ys @ [c, d] \<longleftrightarrow> xs = ys \<and> a = c \<and> b = d"
  using append_eq_append_conv [of "[a, b]" "[c, d]" xs ys] by simp

lemma start_unfold:
  "start a item s =
     (fst (startFunction item (snd s)), fst s @ [Start (type item)],
      snd (startFunction item (snd s)))"
  by (simp add: start_def withProgress_def split_beta)

lemma stop_unfold:
  "stop a item s =
     (fst (stopFunction item (snd s)), fst s @ [Stop (type item)],
      snd (stopFunction item (snd s)))"
  by (simp add: stop_def withProgress_def split_beta)

lemma restart_unfold:
  "restart a item s =
     (if fst (start a item s) then stop a item (snd (start a item s))
      else (False, snd (start a item s)))"
  by (simp add: restart_def split_beta)

lemma resolveTreeItem_queries:
  "q \<in> set (snd (resolveTreeItem a w (JobElement e))) \<Longrightarrow>
     \<exists>c j. getContent w = Some c \<and> tooltip e = None \<and> debugJob e = Some j \<and>
       (q = ActiveJobQuery j (readActiveJob w c j) \<or> q = JVMQuery j (readJVMInfo w c j))"
  by (auto simp: resolveTreeItem_def Let_def split: option.splits if_splits)

lemma resolveTreeItem_nothing:
  "getContent w = Some c \<Longrightarrow> tooltip e = None \<Longrightarrow> debugJob e = Some j \<Longrightarrow>
   readActiveJob w c j = None \<Longrightarrow>
     resolveTreeItem a w (JobElement e) =
       (Some (JobElement (e\<lparr> tooltip := Some (MarkdownString (baseTooltip a j)) \<rparr>)),
        [ActiveJobQuery j None])"
  by (simp add: resolveTreeItem_def Let_def)

text \<open>
  A guard of \<open>resolveTreeItem\<close> that fails returns \<open>undefined\<close> and makes no query: no
  content, a tooltip already set (the constructor sets \<open>''\<close> on every node that is not
  running), an element that is no job item, or a job item without a job.
\<close>

lemma resolveTreeItem_guard:
  "getContent w = None \<or> tooltip e \<noteq> None \<or> debugJob e = None \<Longrightarrow>
     resolveTreeItem a w (JobElement e) = (None, [])"
  by (auto simp: resolveTreeItem_def split: option.splits)

lemma baseTooltip_example:
  "baseTooltip exampleApi \<lparr> name = ''QB5ROUTER'', ports = [8005, 8008] \<rparr>
     = ''listening.on.ports 8005, 8008\<newline>\<newline>''"
  by (simp add: baseTooltip_def exampleApi_def numberToString_def stringOfNat.simps)

lemma exampleServiceItem_enriched:
  "fst (resolveTreeItem exampleApi
      (exampleWorld\<lparr> readActiveJob :=
         (\<lambda>c j. Some (JobRow [(''JOB_NAME'', Some (Str ''QB5ROUTER'')), (''SUBSYSTEM'', None),
                               (''THREAD_COUNT'', Some (Num 42))])) \<rparr>)
      (JobElement exampleServiceItem))
   = Some (JobElement (exampleServiceItem\<lparr> tooltip := Some (MarkdownString
       ''listening.on.ports 8005, 8008\<newline>\<newline>- JOB_NAME: QB5ROUTER\<newline>- THREAD_COUNT: 42\<newline>\<newline>'') \<rparr>))"
  by (simp add: resolveTreeItem_def exampleServiceItem_def exampleWorld_def exampleApi_def
      newDebugJobItem_def running_def cantRun_def certificateProblem_def baseTooltip_def
      numberToString_def stringOfNat.simps Let_def)

section \<open>Trust classification\<close>

text \<open>
  C1. A certificate set without a remote certificate is classified as
  \<open>NoRemoteCertificate\<close>, whatever the secure-debug flag and the local certificate are, and
  the node built from it cannot run: it is not running, its context value carries neither
  \<open>_on\<close> nor \<open>_off\<close>, and it is shown in the failed colour.
\<close>

theorem no_remote_certificate_dominates:
  "remoteCertificate c = None \<Longrightarrow>
     trustOutcome (certificateProblem a w (Some c)) = Some NoRemoteCertificate \<and>
     cantRun (Some c) \<and> \<not> running (Some c) job \<and>
     trustOutcome (problem (newDebugJobItem a w service lbl startFn stopFn job (Some c)))
       = Some NoRemoteCertificate \<and>
     contextValue (newDebugJobItem a w service lbl startFn stopFn job (Some c))
       = Some ''debugJob_service'' \<and>
     color (newDebugJobItem a w service lbl startFn stopFn job (Some c))
       = Some ''testing.iconFailed''"
  by (simp add: certificateProblem_def trustOutcome_def cantRun_def running_def
      newDebugJobItem_def)

theorem no_remote_certificate_dominates_witness:
  "remoteCertificate \<lparr> secureDebug = False, remoteCertificate = None,
                       localCertificate = Some ''CERT-A'' \<rparr> = None \<and>
   trustOutcome (certificateProblem exampleApi exampleWorld
      (Some \<lparr> secureDebug = False, remoteCertificate = None,
              localCertificate = Some ''CERT-A'' \<rparr>)) = Some NoRemoteCertificate \<and>
   cantRun (Some \<lparr> secureDebug = False, remoteCertificate = None,
                   localCertificate = Some ''CERT-A'' \<rparr>)"
  using no_remote_certificate_dominates
    [of "\<lparr> secureDebug = False, remoteCertificate = None, localCertificate = Some ''CERT-A'' \<rparr>"
        exampleApi exampleWorld]
  by simp

text \<open>
  C2. For a node built from a certificate set: it is running exactly when a job is present
  and the trust outcome is not \<open>NoRemoteCertificate\<close>, and blocked exactly when the trust
  outcome is not \<open>Ok\<close>. Running shows as the \<open>_on\<close> context value, blocked as the warning
  icon. A present job with an absent remote certificate gives a node that is not running
  and blocked.
\<close>

theorem session_node_running_blocked:
  "(running (Some c) job \<longleftrightarrow>
      job \<noteq> None \<and>
      trustOutcome (problem (newDebugJobItem a w ty lbl startFn stopFn job (Some c)))
        \<noteq> Some NoRemoteCertificate) \<and>
   (blocked (newDebugJobItem a w ty lbl startFn stopFn job (Some c)) \<longleftrightarrow>
      trustOutcome (problem (newDebugJobItem a w ty lbl startFn stopFn job (Some c)))
        \<noteq> Some Ok) \<and>
   (contextValue (newDebugJobItem a w ty lbl startFn stopFn job (Some c))
      = Some (''debugJob_'' @ typeName ty @ ''_on'') \<longleftrightarrow> running (Some c) job) \<and>
   (icon (newDebugJobItem a w ty lbl startFn stopFn job (Some c)) = Some ''warning'' \<longleftrightarrow>
      blocked (newDebugJobItem a w ty lbl startFn stopFn job (Some c))) \<and>
   (job \<noteq> None \<and> remoteCertificate c = None \<longrightarrow>
      \<not> running (Some c) job \<and>
      blocked (newDebugJobItem a w ty lbl startFn stopFn job (Some c)))"
proof -
  let ?item = "newDebugJobItem a w ty lbl startFn stopFn job (Some c)"
  have r: "running (Some c) job \<longleftrightarrow>
      job \<noteq> None \<and> trustOutcome (problem ?item) \<noteq> Some NoRemoteCertificate"
    by (auto simp: running_def cantRun_def trustOutcome_noremote_iff)
  have b: "blocked ?item \<longleftrightarrow> trustOutcome (problem ?item) \<noteq> Some Ok"
    by (simp add: blocked_def trustOutcome_ok_iff)
  have cv: "contextValue ?item = Some (''debugJob_'' @ typeName ty @ ''_on'')
      \<longleftrightarrow> running (Some c) job"
    by (auto simp: newDebugJobItem_def Let_def running_def)
  have ic: "icon ?item = Some ''warning'' \<longleftrightarrow> blocked ?item"
    by (simp add: newDebugJobItem_def Let_def blocked_def)
  have sim: "job \<noteq> None \<and> remoteCertificate c = None \<longrightarrow>
      \<not> running (Some c) job \<and> blocked ?item"
    by (simp add: running_def cantRun_def blocked_def certificateProblem_def)
  from r b cv ic sim show ?thesis by blast
qed

theorem session_node_running_blocked_witness:
  "(getDebugServiceJob exampleWorld \<noteq> None \<and>
    remoteCertificate \<lparr> secureDebug = True, remoteCertificate = None,
                        localCertificate = None \<rparr> = None) \<and>
   (\<not> running (Some \<lparr> secureDebug = True, remoteCertificate = None, localCertificate = None \<rparr>)
        (getDebugServiceJob exampleWorld) \<and>
    blocked (newDebugJobItem exampleApi exampleWorld service ''debug.service''
        (startService exampleApi exampleConnection) (stopService exampleApi exampleConnection)
        (getDebugServiceJob exampleWorld)
        (Some \<lparr> secureDebug = True, remoteCertificate = None, localCertificate = None \<rparr>)))"
proof -
  have h: "getDebugServiceJob exampleWorld \<noteq> None \<and>
    remoteCertificate \<lparr> secureDebug = True, remoteCertificate = None,
                        localCertificate = None \<rparr> = None"
    by (simp add: exampleWorld_def)
  show ?thesis
    using h session_node_running_blocked
      [where c = "\<lparr> secureDebug = True, remoteCertificate = None, localCertificate = None \<rparr>"
         and job = "getDebugServiceJob exampleWorld" and a = exampleApi and w = exampleWorld
         and ty = service and lbl = "''debug.service''"
         and startFn = "startService exampleApi exampleConnection"
         and stopFn = "stopService exampleApi exampleConnection",
       THEN conjunct2, THEN conjunct2, THEN conjunct2, THEN conjunct2, THEN mp, OF h]
    by (rule conjI)
qed

text \<open>
  C3, as stated, fails where a certificate is present but empty: the constructor tests
  the certificates for truthiness, so a remote certificate that is the empty string is
  classified as \<open>NoRemoteCertificate\<close> even when secure debugging is off, and a local
  certificate that is the empty string as \<open>NoLocalCertificate\<close>, not as a mismatch.
\<close>

theorem present_empty_certificate_counterexample:
  "remoteCertificate \<lparr> secureDebug = False, remoteCertificate = Some [],
                       localCertificate = None \<rparr> \<noteq> None \<and>
   \<not> secureDebug \<lparr> secureDebug = False, remoteCertificate = Some [],
                    localCertificate = None \<rparr> \<and>
   trustOutcome (certificateProblem exampleApi exampleWorld
      (Some \<lparr> secureDebug = False, remoteCertificate = Some [], localCertificate = None \<rparr>))
     = Some NoRemoteCertificate \<and>
   trustOutcome (certificateProblem exampleApi exampleWorld
      (Some \<lparr> secureDebug = False, remoteCertificate = Some [], localCertificate = None \<rparr>))
     \<noteq> Some Ok \<and>
   localCertificate \<lparr> secureDebug = True, remoteCertificate = Some ''CERT-A'',
                      localCertificate = Some [] \<rparr> \<noteq> None \<and>
   Some ''CERT-A'' \<noteq> localCertificate \<lparr> secureDebug = True,
      remoteCertificate = Some ''CERT-A'', localCertificate = Some [] \<rparr> \<and>
   trustOutcome (certificateProblem exampleApi exampleWorld
      (Some \<lparr> secureDebug = True, remoteCertificate = Some ''CERT-A'',
              localCertificate = Some [] \<rparr>))
     = Some NoLocalCertificate \<and>
   trustOutcome (certificateProblem exampleApi exampleWorld
      (Some \<lparr> secureDebug = True, remoteCertificate = Some ''CERT-A'',
              localCertificate = Some [] \<rparr>))
     \<noteq> Some CertificateMismatch"
  by (simp add: certificateProblem_def trustOutcome_def)

text \<open>
  C3, amended. For a certificate set whose remote certificate is present and not empty:
  the outcome is \<open>Ok\<close> when secure debugging is off, whatever the local certificate is;
  otherwise \<open>NoLocalCertificate\<close> when the local certificate is absent or empty; otherwise
  \<open>CertificateMismatch\<close> when the two certificates are not equal as strings; otherwise
  \<open>Ok\<close>. The classification is a function: each input has exactly one outcome.
\<close>

theorem trust_precedence_nonempty:
  "truthy (remoteCertificate c) \<Longrightarrow>
     trustOutcome (certificateProblem a w (Some c)) =
       Some (if \<not> secureDebug c then Ok
             else if \<not> truthy (localCertificate c) then NoLocalCertificate
             else if remoteCertificate c \<noteq> localCertificate c then CertificateMismatch
             else Ok)"
  by (simp add: certificateProblem_def trustOutcome_def)

theorem trust_precedence_nonempty_witness:
  "truthy (remoteCertificate \<lparr> secureDebug = True, remoteCertificate = Some ''CERT-A'',
                               localCertificate = Some ''CERT-B'' \<rparr>) \<and>
   trustOutcome (certificateProblem exampleApi exampleWorld
      (Some \<lparr> secureDebug = True, remoteCertificate = Some ''CERT-A'',
              localCertificate = Some ''CERT-B'' \<rparr>))
     = Some CertificateMismatch"
  using trust_precedence_nonempty
    [of "\<lparr> secureDebug = True, remoteCertificate = Some ''CERT-A'',
           localCertificate = Some ''CERT-B'' \<rparr>" exampleApi exampleWorld]
  by simp

section \<open>Lifecycle commands\<close>

text \<open>
  C4. Restart runs \<open>start()\<close> first and \<open>stop()\<close> only when \<open>start()\<close> returned true. When
  \<open>start()\<close> returns false, restart returns false in the state \<open>start()\<close> left: the only
  call added is the one of \<open>start()\<close>, the count of \<open>stop()\<close> calls is unchanged, and the
  world is the one the start function returned.
\<close>

theorem restart_skips_stop_after_failed_start:
  "(\<not> fst (start a item s) \<longrightarrow>
      restart a item s = (False, snd (start a item s)) \<and>
      fst (snd (restart a item s)) = fst s @ [Start (type item)] \<and>
      count_list (fst (snd (restart a item s))) (Stop k) = count_list (fst s) (Stop k) \<and>
      snd (snd (restart a item s)) = snd (startFunction item (snd s))) \<and>
   (fst (start a item s) \<longrightarrow> restart a item s = stop a item (snd (start a item s)))"
  by (simp add: restart_unfold) (simp add: start_unfold)

theorem restart_skips_stop_after_failed_start_witness:
  "(\<not> fst (start exampleApi exampleServiceItem exampleState) \<and>
    (restart exampleApi exampleServiceItem exampleState
       = (False, snd (start exampleApi exampleServiceItem exampleState)) \<and>
     fst (snd (restart exampleApi exampleServiceItem exampleState))
       = fst exampleState @ [Start (type exampleServiceItem)] \<and>
     count_list (fst (snd (restart exampleApi exampleServiceItem exampleState))) (Stop service)
       = count_list (fst exampleState) (Stop service) \<and>
     snd (snd (restart exampleApi exampleServiceItem exampleState))
       = snd (startFunction exampleServiceItem (snd exampleState)))) \<and>
   (fst (start exampleApi exampleServerItem exampleState) \<and>
    restart exampleApi exampleServerItem exampleState
      = stop exampleApi exampleServerItem (snd (start exampleApi exampleServerItem exampleState)))"
proof -
  have failed: "\<not> fst (start exampleApi exampleServiceItem exampleState)"
    by (simp add: start_unfold exampleServiceItem_def exampleApi_def)
  have started: "fst (start exampleApi exampleServerItem exampleState)"
    by (simp add: start_unfold exampleServerItem_def exampleApi_def)
  note skip = restart_skips_stop_after_failed_start
    [where a = exampleApi and item = exampleServiceItem and s = exampleState and k = service,
     THEN conjunct1, THEN mp, OF failed]
  note both = restart_skips_stop_after_failed_start
    [where a = exampleApi and item = exampleServerItem and s = exampleState and k = service,
     THEN conjunct2, THEN mp, OF started]
  show ?thesis
    using conjI [OF failed skip] conjI [OF started both] by (rule conjI)
qed

text \<open>
  C5, as stated, fails: the start, stop and restart commands fire no event on the tree's
  emitter. With a start function that reports failure and a stop function that reports
  success, neither of which fires an event, no refresh has been fired when the command
  completes.
\<close>

theorem lifecycle_without_refresh_counterexample:
  "\<not> fst (start exampleApi exampleServiceItem exampleState) \<and>
   fired (snd (snd (start exampleApi exampleServiceItem exampleState))) = [] \<and>
   fst (stop exampleApi exampleServiceItem exampleState) \<and>
   fired (snd (snd (stop exampleApi exampleServiceItem exampleState))) = [] \<and>
   fired (snd (snd (restart exampleApi exampleServiceItem exampleState))) = []"
  by (simp add: restart_unfold start_unfold stop_unfold exampleServiceItem_def exampleApi_def
      exampleWorld_def exampleState_def)

text \<open>
  C5, amended. A start or stop command changes the world exactly as the node's start or
  stop function does; the commands fire no refresh of their own. When the node's start
  and stop functions fire no event, the events fired are the same after start, stop and
  restart as before: a refresh follows an action only if the start or stop function
  triggers it.
\<close>

theorem lifecycle_fires_only_delegate_events:
  "snd (snd (start a item s)) = snd (startFunction item (snd s)) \<and>
   snd (snd (stop a item s)) = snd (stopFunction item (snd s)) \<and>
   ((\<forall>w. fired (snd (startFunction item w)) = fired w) \<and>
    (\<forall>w. fired (snd (stopFunction item w)) = fired w) \<longrightarrow>
      fired (snd (snd (start a item s))) = fired (snd s) \<and>
      fired (snd (snd (stop a item s))) = fired (snd s) \<and>
      fired (snd (snd (restart a item s))) = fired (snd s))"
  by (simp add: restart_unfold) (simp add: start_unfold stop_unfold)

theorem lifecycle_fires_only_delegate_events_witness:
  "((\<forall>w. fired (snd (startFunction exampleServiceItem w)) = fired w) \<and>
    (\<forall>w. fired (snd (stopFunction exampleServiceItem w)) = fired w)) \<and>
   (fired (snd (snd (start exampleApi exampleServiceItem exampleState)))
      = fired (snd exampleState) \<and>
    fired (snd (snd (stop exampleApi exampleServiceItem exampleState)))
      = fired (snd exampleState) \<and>
    fired (snd (snd (restart exampleApi exampleServiceItem exampleState)))
      = fired (snd exampleState))"
proof -
  have quiet: "(\<forall>w. fired (snd (startFunction exampleServiceItem w)) = fired w) \<and>
               (\<forall>w. fired (snd (stopFunction exampleServiceItem w)) = fired w)"
    by (simp add: exampleServiceItem_def exampleApi_def)
  show ?thesis
    using quiet lifecycle_fires_only_delegate_events
      [where a = exampleApi and item = exampleServiceItem and s = exampleState,
       THEN conjunct2, THEN conjunct2, THEN mp, OF quiet]
    by (rule conjI)
qed

section \<open>Detail resolution\<close>

text \<open>
  C6. A detail request on a node with a present job whose enrichment query returned
  nothing hands the node back with its base tooltip, the line of the ports, and makes no
  further query. The result is a value in every case: resolution has no failing branch.
\<close>

theorem enrichment_nothing_keeps_base_tooltip:
  "debugJob e = Some j \<Longrightarrow>
   ActiveJobQuery j None \<in> set (snd (resolveTreeItem a w (JobElement e))) \<Longrightarrow>
     resolveTreeItem a w (JobElement e) =
       (Some (JobElement (e\<lparr> tooltip := Some (MarkdownString (baseTooltip a j)) \<rparr>)),
        [ActiveJobQuery j None])"
proof -
  assume j: "debugJob e = Some j"
    and q: "ActiveJobQuery j None \<in> set (snd (resolveTreeItem a w (JobElement e)))"
  from resolveTreeItem_queries [OF q] j obtain c where
    c: "getContent w = Some c" and tip: "tooltip e = None" and r: "readActiveJob w c j = None"
    by auto
  from resolveTreeItem_nothing [OF c tip j r] show ?thesis .
qed

theorem enrichment_nothing_keeps_base_tooltip_witness:
  "(debugJob exampleServiceItem = Some \<lparr> name = ''QB5ROUTER'', ports = [8005, 8008] \<rparr> \<and>
    ActiveJobQuery \<lparr> name = ''QB5ROUTER'', ports = [8005, 8008] \<rparr> None
      \<in> set (snd (resolveTreeItem exampleApi exampleWorld (JobElement exampleServiceItem)))) \<and>
   resolveTreeItem exampleApi exampleWorld (JobElement exampleServiceItem) =
     (Some (JobElement (exampleServiceItem\<lparr> tooltip := Some (MarkdownString
        (baseTooltip exampleApi \<lparr> name = ''QB5ROUTER'', ports = [8005, 8008] \<rparr>)) \<rparr>)),
      [ActiveJobQuery \<lparr> name = ''QB5ROUTER'', ports = [8005, 8008] \<rparr> None])"
proof -
  have j: "debugJob exampleServiceItem = Some \<lparr> name = ''QB5ROUTER'', ports = [8005, 8008] \<rparr>"
    by (simp add: exampleServiceItem_def exampleWorld_def)
  have tip: "tooltip exampleServiceItem = None"
    by (simp add: exampleServiceItem_def exampleWorld_def newDebugJobItem_def Let_def
        running_def cantRun_def)
  have q: "ActiveJobQuery \<lparr> name = ''QB5ROUTER'', ports = [8005, 8008] \<rparr> None
      \<in> set (snd (resolveTreeItem exampleApi exampleWorld (JobElement exampleServiceItem)))"
    using j tip by (simp add: resolveTreeItem_def Let_def exampleWorld_def)
  show ?thesis
    using conjI [OF j q] enrichment_nothing_keeps_base_tooltip [OF j q] by (rule conjI)
qed

section \<open>Refresh\<close>

text \<open>
  C7. Two refreshes whose collaborator reads (connection with its secure-debug flag,
  certificate existence and contents, the two job queries) returned the same results
  produce equal nodes, whatever else differs between the two worlds.
\<close>

theorem refresh_determined_by_reads:
  "snd (getRootItems a w1) = snd (getRootItems a w2) \<Longrightarrow>
     fst (getRootItems a w1) = fst (getRootItems a w2)"
proof -
  assume obs: "snd (getRootItems a w1) = snd (getRootItems a w2)"
  show ?thesis
  proof (cases "getConnection w1")
    case None
    with obs have "getConnection w2 = None"
      by (cases "getConnection w2")
         (simp_all add: getRootItems_disconnected getRootItems_connected)
    with None show ?thesis by (simp add: getRootItems_disconnected)
  next
    case (Some c)
    with obs have c2: "getConnection w2 = Some c"
      by (cases "getConnection w2")
         (simp_all add: getRootItems_disconnected getRootItems_connected)
    from obs Some c2 have
      certs: "snd (rootCertificates w1 c) = snd (rootCertificates w2 c)" and
      srv: "getDebugServerJob w1 = getDebugServerJob w2" and
      svc: "getDebugServiceJob w1 = getDebugServiceJob w2"
      by (simp_all add: getRootItems_connected append_two_eq)
    from Some c2 have conn: "getConnection w1 = getConnection w2" by simp
    show ?thesis
      by (simp add: getRootItems_connected [OF Some] getRootItems_connected [OF c2]
          rootCertificates_determined [OF certs] srv svc newDebugJobItem_world [OF conn])
  qed
qed

theorem refresh_determined_by_reads_witness:
  "snd (getRootItems exampleApi insecureWorld) = snd (getRootItems exampleApi insecureWorld') \<and>
   fst (getRootItems exampleApi insecureWorld) = fst (getRootItems exampleApi insecureWorld')"
proof -
  have same: "snd (getRootItems exampleApi insecureWorld)
      = snd (getRootItems exampleApi insecureWorld')"
    by (simp add: getRootItems_def rootCertificates_def insecureWorld_def insecureWorld'_def
        exampleWorld_def Let_def)
  show ?thesis
    using same refresh_determined_by_reads [OF same] by (rule conjI)
qed

text \<open>
  C8. On a refresh with a connection the server node is built without certificates: it
  carries no issue, is not blocked and has no child, and it is running exactly when the
  server job is present. It is the same node in every world with the same server job,
  whatever the certificate files and the secure-debug flag are there.
\<close>

theorem server_node_ignores_certificates:
  "getConnection w = Some c \<Longrightarrow> getConnection w' \<noteq> None \<Longrightarrow>
   getDebugServerJob w' = getDebugServerJob w \<Longrightarrow>
     hd (fst (getRootItems a w)) =
       newDebugJobItem a w server (t a ''debug.server'' []) (startServer a) (stopServer a)
         (getDebugServerJob w) None \<and>
     map type (fst (getRootItems a w)) = [server, service] \<and>
     problem (hd (fst (getRootItems a w))) = None \<and>
     \<not> blocked (hd (fst (getRootItems a w))) \<and>
     getChildren (hd (fst (getRootItems a w))) = None \<and>
     (running None (getDebugServerJob w) \<longleftrightarrow> getDebugServerJob w \<noteq> None) \<and>
     contextValue (hd (fst (getRootItems a w))) =
       Some (if getDebugServerJob w \<noteq> None then ''debugJob_server_on''
             else ''debugJob_server_off'') \<and>
     hd (fst (getRootItems a w')) = hd (fst (getRootItems a w))"
proof -
  assume c: "getConnection w = Some c" and c': "getConnection w' \<noteq> None"
    and job: "getDebugServerJob w' = getDebugServerJob w"
  from c' obtain d where d: "getConnection w' = Some d" by auto
  have none: "certificateProblem a w None = None"
    by (simp add: certificateProblem_def)
  have cv: "contextValue (newDebugJobItem a w server (t a ''debug.server'' []) (startServer a)
      (stopServer a) (getDebugServerJob w) None) =
       Some (if getDebugServerJob w \<noteq> None then ''debugJob_server_on''
             else ''debugJob_server_off'')"
    by (simp add: newDebugJobItem_def Let_def running_def cantRun_def)
  have same: "hd (fst (getRootItems a w')) = hd (fst (getRootItems a w))"
    by (simp add: getRootItems_connected [OF c] getRootItems_connected [OF d] job
        newDebugJobItem_no_certificates [of a w' _ _ _ _ _ w])
  show ?thesis
    using cv same
    by (simp add: getRootItems_connected [OF c] none blocked_def getChildren_def
        running_def cantRun_def)
qed

theorem server_node_ignores_certificates_witness:
  "(getConnection noRemoteWorld = Some exampleConnection \<and>
    getConnection exampleWorld \<noteq> None \<and>
    getDebugServerJob exampleWorld = getDebugServerJob noRemoteWorld) \<and>
   (problem (hd (fst (getRootItems exampleApi noRemoteWorld))) = None \<and>
    hd (fst (getRootItems exampleApi exampleWorld))
      = hd (fst (getRootItems exampleApi noRemoteWorld)))"
proof -
  have c: "getConnection noRemoteWorld = Some exampleConnection"
    by (simp add: noRemoteWorld_def exampleWorld_def)
  have c': "getConnection exampleWorld \<noteq> None"
    by (simp add: exampleWorld_def)
  have job: "getDebugServerJob exampleWorld = getDebugServerJob noRemoteWorld"
    by (simp add: noRemoteWorld_def)
  note server = server_node_ignores_certificates [OF c c' job, of exampleApi]
  show ?thesis
    using c c' job server by blast
qed

text \<open>
  C9. When the remote certificate file exists and reads as the empty string, the
  certificate set holds a present, empty remote certificate, the service node is
  classified as \<open>NoRemoteCertificate\<close> and cannot run, and it is the very node a refresh
  builds when the remote certificate file does not exist.
\<close>

theorem empty_remote_certificate_as_absent:
  "getConnection w = Some c \<Longrightarrow> remoteServerCertificateExists w c \<Longrightarrow>
   readRemoteCertificate w c = [] \<Longrightarrow>
     remoteCertificate (fst (rootCertificates w c)) = Some [] \<and>
     cantRun (Some (fst (rootCertificates w c))) \<and>
     trustOutcome (problem (last (fst (getRootItems a w)))) = Some NoRemoteCertificate \<and>
     contextValue (last (fst (getRootItems a w))) = Some ''debugJob_service'' \<and>
     last (fst (getRootItems a w)) =
       last (fst (getRootItems a (w\<lparr> remoteServerCertificateExists := (\<lambda>c. False) \<rparr>)))"
proof -
  assume c: "getConnection w = Some c" and ex: "remoteServerCertificateExists w c"
    and empty: "readRemoteCertificate w c = []"
  let ?w' = "w\<lparr> remoteServerCertificateExists := (\<lambda>c. False) \<rparr>"
  have c': "getConnection ?w' = Some c" using c by simp
  have remote: "remoteCertificate (fst (rootCertificates w c)) = Some []"
    using ex empty by (simp add: rootCertificates_def Let_def)
  have remote': "remoteCertificate (fst (rootCertificates ?w' c)) = None"
    by (simp add: rootCertificates_def Let_def)
  have falsy: "\<not> truthy (remoteCertificate (fst (rootCertificates w c)))"
    and falsy': "\<not> truthy (remoteCertificate (fst (rootCertificates ?w' c)))"
    using remote remote' by simp_all
  have cant: "cantRun (Some (fst (rootCertificates w c)))"
    using falsy by (simp add: cantRun_def)
  have trust: "trustOutcome (problem (last (fst (getRootItems a w)))) = Some NoRemoteCertificate"
    using falsy by (simp add: getRootItems_connected [OF c] trustOutcome_noremote_iff)
  have cv: "contextValue (last (fst (getRootItems a w))) = Some ''debugJob_service''"
    using cant by (simp add: getRootItems_connected [OF c] newDebugJobItem_def Let_def)
  have conn: "getConnection ?w' = getConnection w" by simp
  have same: "last (fst (getRootItems a w)) = last (fst (getRootItems a ?w'))"
    using newDebugJobItem_falsy_remote [OF falsy falsy', of a w]
    by (simp add: getRootItems_connected [OF c] getRootItems_connected [OF c']
        newDebugJobItem_world [OF conn])
  from remote cant trust cv same show ?thesis by blast
qed

theorem empty_remote_certificate_as_absent_witness:
  "(getConnection emptyRemoteWorld = Some exampleConnection \<and>
    remoteServerCertificateExists emptyRemoteWorld exampleConnection \<and>
    readRemoteCertificate emptyRemoteWorld exampleConnection = []) \<and>
   (trustOutcome (problem (last (fst (getRootItems exampleApi emptyRemoteWorld))))
      = Some NoRemoteCertificate \<and>
    contextValue (last (fst (getRootItems exampleApi emptyRemoteWorld)))
      = Some ''debugJob_service'' \<and>
    last (fst (getRootItems exampleApi emptyRemoteWorld)) =
      last (fst (getRootItems exampleApi
        (emptyRemoteWorld\<lparr> remoteServerCertificateExists := (\<lambda>c. False) \<rparr>))))"
proof -
  have c: "getConnection emptyRemoteWorld = Some exampleConnection"
    by (simp add: emptyRemoteWorld_def exampleWorld_def)
  have ex: "remoteServerCertificateExists emptyRemoteWorld exampleConnection"
    by (simp add: emptyRemoteWorld_def exampleWorld_def)
  have empty: "readRemoteCertificate emptyRemoteWorld exampleConnection = []"
    by (simp add: emptyRemoteWorld_def)
  note node = empty_remote_certificate_as_absent [OF c ex empty, of exampleApi]
  show ?thesis
    using c ex empty node by blast
qed

text \<open>
  C10. The certificate set a refresh builds holds a local certificate only when it holds
  a remote certificate and secure debugging is on; the local certificate file is read
  only then; and the service node of the refresh is classified as \<open>NoLocalCertificate\<close> or
  \<open>CertificateMismatch\<close> only then.
\<close>

theorem refresh_local_certificate_invariant:
  "getConnection w = Some c \<Longrightarrow>
     problem (last (fst (getRootItems a w)))
       = certificateProblem a w (Some (fst (rootCertificates w c))) \<and>
     (localCertificate (fst (rootCertificates w c)) \<noteq> None \<or>
      (\<exists>s. ObsLocalCertificate s \<in> set (snd (getRootItems a w))) \<or>
      trustOutcome (problem (last (fst (getRootItems a w))))
        \<in> {Some NoLocalCertificate, Some CertificateMismatch} \<longrightarrow>
        secureDebug (fst (rootCertificates w c)) \<and>
        remoteCertificate (fst (rootCertificates w c)) \<noteq> None)"
proof -
  assume c: "getConnection w = Some c"
  have p: "problem (last (fst (getRootItems a w)))
       = certificateProblem a w (Some (fst (rootCertificates w c)))"
    by (simp add: getRootItems_connected [OF c])
  have obs: "\<And>s. ObsLocalCertificate s \<in> set (snd (getRootItems a w)) \<Longrightarrow>
      ObsLocalCertificate s \<in> set (snd (rootCertificates w c))"
    by (simp add: getRootItems_connected [OF c])
  show ?thesis
    using p obs rootCertificates_local [of w c] rootCertificates_local_read [of _ w c]
      local_outcomes_need_secure_remote [of a w "fst (rootCertificates w c)"]
    by metis
qed

theorem refresh_local_certificate_invariant_witness:
  "(getConnection mismatchWorld = Some exampleConnection \<and>
    localCertificate (fst (rootCertificates mismatchWorld exampleConnection)) \<noteq> None \<and>
    ObsLocalCertificate ''CERT-B'' \<in> set (snd (getRootItems exampleApi mismatchWorld)) \<and>
    trustOutcome (problem (last (fst (getRootItems exampleApi mismatchWorld))))
      = Some CertificateMismatch) \<and>
   (secureDebug (fst (rootCertificates mismatchWorld exampleConnection)) \<and>
    remoteCertificate (fst (rootCertificates mismatchWorld exampleConnection)) \<noteq> None)"
proof -
  have c: "getConnection mismatchWorld = Some exampleConnection"
    by (simp add: mismatchWorld_def exampleWorld_def)
  have certs: "rootCertificates mismatchWorld exampleConnection =
      (\<lparr> secureDebug = True, remoteCertificate = Some ''CERT-A'',
         localCertificate = Some ''CERT-B'' \<rparr>,
       [ObsRemoteExists True, ObsRemoteCertificate ''CERT-A'', ObsLocalExists True,
        ObsLocalCertificate ''CERT-B''])"
    by (simp add: rootCertificates_def mismatchWorld_def exampleWorld_def
        exampleConnection_def Let_def)
  have l: "localCertificate (fst (rootCertificates mismatchWorld exampleConnection)) \<noteq> None"
    by (simp add: certs)
  have r: "ObsLocalCertificate ''CERT-B'' \<in> set (snd (getRootItems exampleApi mismatchWorld))"
    by (simp add: getRootItems_connected [OF c] certs)
  have m: "trustOutcome (problem (last (fst (getRootItems exampleApi mismatchWorld))))
      = Some CertificateMismatch"
    by (simp add: getRootItems_connected [OF c] certs certificateProblem_def trustOutcome_def)
  note inv = refresh_local_certificate_invariant [OF c, of exampleApi, THEN conjunct2]
  show ?thesis
    using c l r m inv by blast
qed

end
